theory Spec2Isabelle
  imports Main
begin

section \<open>Python values, exceptions and the store\<close>

text \<open>
  The module \<^verbatim>\<open>volatility/framework/contexts/__init__.py\<close> defines two classes,
  \<^verbatim>\<open>ContextFactory\<close> (a \<^verbatim>\<open>list\<close> of modifiers) and \<^verbatim>\<open>Context\<close>. Both are mutable
  objects that are shared by reference, so the embedding passes an explicit store:
  a \<open>ref\<close> is the identity of an object, the store maps the references of contexts and
  of templates to their current state, and every method takes the store and returns the
  store it leaves behind, next to its result. A raised exception is the result \<open>Inl e\<close>.
\<close>

type_synonym ref = nat

text \<open>
  The values a caller can pass: \<^verbatim>\<open>None\<close>, integers, strings, a reference to any other
  object, and configuration stores (\<^verbatim>\<open>config.ConfigGroup\<close>: a name and its entries).
\<close>

datatype pyvalue =
    PyNone
  | PyInt int
  | PyStr string
  | PyRef ref
  | ConfigGroup string "(string \<times> pyvalue) list"

text \<open>\<^verbatim>\<open>isinstance(value, config.ConfigGroup)\<close>.\<close>

fun isinstance_ConfigGroup :: "pyvalue \<Rightarrow> bool" where
  "isinstance_ConfigGroup (ConfigGroup n kvs) = True"
| "isinstance_ConfigGroup v = False"

text \<open>
  The exceptions. \<open>TypeError\<close> (with its message) and \<open>IndexError\<close> are Python's own;
  \<open>LayerAlreadyExists\<close>, \<open>LayerDependencyUnmet\<close>, \<open>SymbolNotFound\<close> and
  \<open>TemplateSpecializationError\<close> are the error kinds the specification names for the
  layer registry, the symbol space and the specialisation of a template; \<open>Raised\<close> is
  any other exception of a collaborator (a modifier, \<^verbatim>\<open>_type_check\<close>).
\<close>

datatype error =
    TypeError string
  | IndexError
  | LayerAlreadyExists
  | LayerDependencyUnmet
  | SymbolNotFound
  | TemplateSpecializationError
  | Raised string

type_synonym 'a result = "error + 'a"

text \<open>
  The specification's error kind \<open>ConfigTypeMismatch\<close> is, in the source, the
  \<^verbatim>\<open>TypeError("Configuration must of type ConfigGroup")\<close> of the \<^verbatim>\<open>config\<close> setter.
\<close>

abbreviation ConfigTypeMismatch :: error where
  "ConfigTypeMismatch \<equiv> TypeError ''Configuration must of type ConfigGroup''"

section \<open>Collaborators that the module imports\<close>

subsection \<open>Native tables\<close>

text \<open>
  Modelled from the spec: the native tables of \<^verbatim>\<open>volatility.framework.symbols.native\<close>
  are not part of the sources. \<open>x86NativeTable\<close> is the one table the module names;
  \<open>NativeTable a\<close> stands for the scalar definitions of any other architecture \<open>a\<close>.
\<close>

datatype native_table = x86NativeTable | NativeTable string

subsection \<open>The layer registry\<close>

record layer =
  name :: string
  dependencies :: "string list"

record memory_registry =
  layers :: "string \<rightharpoonup> layer"

text \<open>Modelled from the spec: \<^verbatim>\<open>layers.Memory()\<close>, a registry with no layer.\<close>

definition Memory :: memory_registry where
  "Memory = \<lparr>layers = Map.empty\<rparr>"

text \<open>
  Modelled from the spec: \<^verbatim>\<open>Memory.add_layer\<close> is not part of the sources. It fails
  with \<open>LayerAlreadyExists\<close> if a layer of that name is already registered, fails with
  \<open>LayerDependencyUnmet\<close> if any name the layer declares as a dependency is not yet
  registered, leaves the registry unchanged on failure, and on success makes the layer
  queryable by name. The checks are made in the order the specification lists them.
\<close>

definition add_layer :: "memory_registry \<Rightarrow> layer \<Rightarrow> unit result \<times> memory_registry" where
  "add_layer m l =
     (if layers m (name l) \<noteq> None then (Inl LayerAlreadyExists, m)
      else if list_ex (\<lambda>d. layers m d = None) (dependencies l)
        then (Inl LayerDependencyUnmet, m)
      else (Inr (), m\<lparr>layers := (layers m)(name l \<mapsto> l)\<rparr>))"

subsection \<open>The symbol space and its templates\<close>

text \<open>
  A template is an object of the store; its \<open>vol\<close> dictionary holds the parameters it
  has been specialised with, and its \<open>schema\<close> declares the parameters it takes: every
  declared parameter name with the values that are in range for it. The symbol space
  maps each qualified symbol name to the reference of its registered template.
\<close>

record template =
  vol :: "string \<rightharpoonup> pyvalue"
  schema :: "string \<rightharpoonup> (pyvalue \<Rightarrow> bool)"

record symbol_table =
  natives :: native_table
  structures :: "string \<rightharpoonup> ref"

text \<open>
  Modelled from the spec: \<^verbatim>\<open>symbols.SymbolSpace(natives)\<close>; every symbol space is
  constructed with exactly one native table and no structure.
\<close>

definition SymbolSpace :: "native_table \<Rightarrow> symbol_table" where
  "SymbolSpace n = \<lparr>natives = n, structures = Map.empty\<rparr>"

text \<open>
  Modelled from the spec: \<^verbatim>\<open>SymbolSpace.get_structure\<close> is not part of the sources. It
  returns the template registered for the qualified name and fails with \<open>SymbolNotFound\<close>
  if no registered table defines that name; a lookup has no effect on the symbol space.
\<close>

definition get_structure :: "symbol_table \<Rightarrow> string \<Rightarrow> ref result" where
  "get_structure s symbol =
     (case structures s symbol of None \<Rightarrow> Inl SymbolNotFound | Some t \<Rightarrow> Inr t)"

subsection \<open>Contexts and the store\<close>

text \<open>The attributes \<^verbatim>\<open>_symbol_space\<close>, \<^verbatim>\<open>_memory\<close> and \<^verbatim>\<open>_config\<close> of a \<^verbatim>\<open>Context\<close>.\<close>

record context_state =
  ctx_symbol_space :: symbol_table
  ctx_memory :: memory_registry
  ctx_config :: pyvalue

text \<open>
  The store: the state of every context and of every template, by reference, and the
  next reference a constructor hands out. The references below \<open>next_ref\<close> are the
  allocated ones.
\<close>

record heap =
  next_ref :: ref
  contexts :: "ref \<Rightarrow> context_state"
  templates :: "ref \<Rightarrow> template"

definition is_allocated :: "heap \<Rightarrow> ref \<Rightarrow> bool" where
  "is_allocated h r \<longleftrightarrow> r < next_ref h"

text \<open>
  The parameters of a specialisation are valid for a template when every name among
  them is declared by the template's schema and its value is in range.
\<close>

definition valid_parameters :: "template \<Rightarrow> (string \<rightharpoonup> pyvalue) \<Rightarrow> bool" where
  "valid_parameters tpl arguments \<longleftrightarrow>
     (\<forall>k \<in> dom arguments.
        case schema tpl k of
          None \<Rightarrow> False
        | Some in_range \<Rightarrow> (case arguments k of None \<Rightarrow> False | Some v \<Rightarrow> in_range v))"

text \<open>
  Modelled from the spec: \<^verbatim>\<open>Template.update_vol\<close> is not part of the sources. It takes
  a template and a mapping from parameter names to values, validates the parameters
  against the template's declared schema and fails with \<open>TemplateSpecializationError\<close>
  on an unknown or out-of-range parameter; otherwise it returns a new, independent
  template value that reflects those parameters. It does not mutate the template that
  was looked up: the store is left as it was.
\<close>

definition update_vol ::
  "ref \<Rightarrow> (string \<rightharpoonup> pyvalue) \<Rightarrow> heap \<Rightarrow> template result \<times> heap" where
  "update_vol t arguments h =
     (if valid_parameters (templates h t) arguments
        then (Inr ((templates h t)\<lparr>vol := vol (templates h t) ++ arguments\<rparr>), h)
      else (Inl TemplateSpecializationError, h))"

text \<open>
  \<^verbatim>\<open>interfaces.objects.ObjectInformation\<close>: where a template is bound. The constructor
  takes the layer name and the offset, and optionally a parent and a native layer name;
  an argument that is not passed is \<open>None\<close>.
\<close>

record object_information =
  info_layer_name :: string
  info_offset :: int
  info_parent :: "ref option"
  info_native_layer_name :: "string option"

definition ObjectInformation ::
  "string \<Rightarrow> int \<Rightarrow> ref option \<Rightarrow> string option \<Rightarrow> object_information" where
  "ObjectInformation layer_name offset parent native_layer_name =
     \<lparr>info_layer_name = layer_name, info_offset = offset,
      info_parent = parent, info_native_layer_name = native_layer_name\<rparr>"

text \<open>
  An object: the context it was constructed with, its \<open>ObjectInformation\<close>, the template
  that built it and the parameters that template had when it was bound.
\<close>

record structured_object =
  obj_context :: ref
  obj_info :: object_information
  obj_template :: ref
  obj_vol :: "string \<rightharpoonup> pyvalue"

text \<open>
  Modelled from the spec: calling a template, \<^verbatim>\<open>template(context = c, object_info = i)\<close>,
  binds it to the location without reading any bytes and without any effect on the store.
\<close>

definition template_call ::
  "ref \<Rightarrow> ref \<Rightarrow> object_information \<Rightarrow> heap \<Rightarrow> structured_object result \<times> heap" where
  "template_call t c object_info h =
     (Inr \<lparr>obj_context = c, obj_info = object_info, obj_template = t,
           obj_vol = vol (templates h t)\<rparr>, h)"

section \<open>The class Context\<close>

text \<open>
  \<^verbatim>\<open>Context.__init__(self, natives = symbols.native.x86NativeTable)\<close>, together with the
  allocation of the new object. \<open>None\<close> is a call without the \<^verbatim>\<open>natives\<close> argument.
  The configuration store \<^verbatim>\<open>config.ConfigGroup(name = 'volatility')\<close> starts without
  entries.
\<close>

definition Context_init :: "native_table option \<Rightarrow> heap \<Rightarrow> ref \<times> heap" where
  "Context_init natives_arg h =
     (let self = next_ref h;
          n = (case natives_arg of None \<Rightarrow> x86NativeTable | Some t \<Rightarrow> t)
      in (self,
          h\<lparr>next_ref := Suc self,
            contexts := (contexts h)(self :=
              \<lparr>ctx_symbol_space = SymbolSpace n,
               ctx_memory = Memory,
               ctx_config = ConfigGroup ''volatility'' []\<rparr>)\<rparr>))"

text \<open>The properties \<^verbatim>\<open>config\<close>, \<^verbatim>\<open>symbol_space\<close> and \<^verbatim>\<open>memory\<close>.\<close>

definition config :: "ref \<Rightarrow> heap \<Rightarrow> pyvalue" where
  "config self h = ctx_config (contexts h self)"

definition symbol_space :: "ref \<Rightarrow> heap \<Rightarrow> symbol_table" where
  "symbol_space self h = ctx_symbol_space (contexts h self)"

definition memory :: "ref \<Rightarrow> heap \<Rightarrow> memory_registry" where
  "memory self h = ctx_memory (contexts h self)"

text \<open>The setter of \<^verbatim>\<open>config\<close>.\<close>

definition set_config :: "ref \<Rightarrow> pyvalue \<Rightarrow> heap \<Rightarrow> unit result \<times> heap" where
  "set_config self v h =
     (if \<not> isinstance_ConfigGroup v
        then (Inl (TypeError ''Configuration must of type ConfigGroup''), h)
      else (Inr (), h\<lparr>contexts := (contexts h)(self := (contexts h self)\<lparr>ctx_config := v\<rparr>)\<rparr>))"

text \<open>\<^verbatim>\<open>Context.add_translation_layer\<close>: \<^verbatim>\<open>self._memory.add_layer(layer)\<close>.\<close>

definition add_translation_layer :: "ref \<Rightarrow> layer \<Rightarrow> heap \<Rightarrow> unit result \<times> heap" where
  "add_translation_layer self l h =
     (case add_layer (ctx_memory (contexts h self)) l of
        (r, m) \<Rightarrow> (r, h\<lparr>contexts := (contexts h)(self := (contexts h self)\<lparr>ctx_memory := m\<rparr>)\<rparr>))"

text \<open>
  \<^verbatim>\<open>Context.object(self, symbol, layer_name, offset, **arguments)\<close>: the three statements
  of the method. An exception of \<^verbatim>\<open>get_structure\<close> or \<^verbatim>\<open>update_vol\<close> is not caught.
  The keyword arguments are a dictionary from parameter names to values. The call of
  \<^verbatim>\<open>update_vol\<close> is a statement: what it returns is not used, and the template that is
  called afterwards is the one that was looked up.
\<close>

definition object ::
  "ref \<Rightarrow> string \<Rightarrow> string \<Rightarrow> int \<Rightarrow> (string \<rightharpoonup> pyvalue) \<Rightarrow> heap
     \<Rightarrow> structured_object result \<times> heap" where
  "object self symbol layer_name offset arguments h =
     (case get_structure (ctx_symbol_space (contexts h self)) symbol of
        Inl e \<Rightarrow> (Inl e, h)
      | Inr object_template \<Rightarrow>
          (case update_vol object_template arguments h of
             (Inl e, h1) \<Rightarrow> (Inl e, h1)
           | (Inr u, h1) \<Rightarrow>
               template_call object_template self
                 (ObjectInformation layer_name offset None None) h1))"

text \<open>
  The same method over any implementation \<open>upd\<close> of \<^verbatim>\<open>update_vol\<close>: what the three
  statements do whatever the absent method does to the store.
\<close>

definition object_with ::
  "(ref \<Rightarrow> (string \<rightharpoonup> pyvalue) \<Rightarrow> heap \<Rightarrow> 'r result \<times> heap)
     \<Rightarrow> ref \<Rightarrow> string \<Rightarrow> string \<Rightarrow> int \<Rightarrow> (string \<rightharpoonup> pyvalue) \<Rightarrow> heap
     \<Rightarrow> structured_object result \<times> heap" where
  "object_with upd self symbol layer_name offset arguments h =
     (case get_structure (ctx_symbol_space (contexts h self)) symbol of
        Inl e \<Rightarrow> (Inl e, h)
      | Inr object_template \<Rightarrow>
          (case upd object_template arguments h of
             (Inl e, h1) \<Rightarrow> (Inl e, h1)
           | (Inr u, h1) \<Rightarrow>
               template_call object_template self
                 (ObjectInformation layer_name offset None None) h1))"

text \<open>Two calls of \<^verbatim>\<open>object\<close> for the same symbol and location, one after the other.\<close>

definition object_twice ::
  "ref \<Rightarrow> string \<Rightarrow> string \<Rightarrow> int \<Rightarrow> (string \<rightharpoonup> pyvalue) \<Rightarrow> (string \<rightharpoonup> pyvalue)
     \<Rightarrow> heap \<Rightarrow> structured_object result \<times> structured_object result \<times> heap" where
  "object_twice self symbol layer_name offset p1 p2 h =
     (case object self symbol layer_name offset p1 h of
        (r1, h1) \<Rightarrow>
          (case object self symbol layer_name offset p2 h1 of
             (r2, h2) \<Rightarrow> (r1, r2, h2)))"

section \<open>The class ContextFactory\<close>

text \<open>
  A modifier is a collaborator with two methods: \<^verbatim>\<open>get_config_options()\<close>, which returns
  its options (name, expected type, description) or raises, and the call
  \<^verbatim>\<open>modifier(context = c)\<close>, which works on the store through the context it is given.
\<close>

type_synonym config_option = "string \<times> string \<times> string"

record modifier =
  get_config_options :: "config_option list result"
  modifier_call :: "ref \<Rightarrow> heap \<Rightarrow> unit result \<times> heap"

text \<open>
  Python's \<^verbatim>\<open>list.__setitem__\<close> with an integer key: a negative key counts from the end,
  a key out of range raises \<^verbatim>\<open>IndexError\<close>. \<^verbatim>\<open>list.append\<close> never fails.
\<close>

definition list_setitem :: "'v list \<Rightarrow> int \<Rightarrow> 'v \<Rightarrow> unit result \<times> 'v list" where
  "list_setitem xs key v =
     (let n = int (length xs); j = (if key < 0 then key + n else key)
      in if 0 \<le> j \<and> j < n then (Inr (), xs[nat j := v]) else (Inl IndexError, xs))"

definition list_append :: "'v list \<Rightarrow> 'v \<Rightarrow> unit result \<times> 'v list" where
  "list_append xs v = (Inr (), xs @ [v])"

text \<open>
  \<^verbatim>\<open>ContextFactory.__setitem__\<close>, for an integer key. The check \<^verbatim>\<open>_type_check\<close> is inherited from
  \<^verbatim>\<open>validity.ValidityRoutines\<close>, which is not part of the sources: it is the parameter
  \<open>type_check\<close>, which returns or raises. The class does not override \<^verbatim>\<open>append\<close>, so
  \<open>append_item\<close> is the one of \<^verbatim>\<open>list\<close>.
\<close>

definition setitem ::
  "('v \<Rightarrow> unit result) \<Rightarrow> 'v list \<Rightarrow> int \<Rightarrow> 'v \<Rightarrow> unit result \<times> 'v list" where
  "setitem type_check self key v =
     (case type_check v of
        Inl e \<Rightarrow> (Inl e, self)
      | Inr u \<Rightarrow> list_setitem self key v)"

definition append_item :: "'v list \<Rightarrow> 'v \<Rightarrow> unit result \<times> 'v list" where
  "append_item self v = list_append self v"

text \<open>
  \<^verbatim>\<open>ContextFactory.get_config_requirements\<close>: the loop calls \<^verbatim>\<open>get_config_options()\<close> on
  every modifier and drops what it returns; the method has no \<^verbatim>\<open>return\<close> statement, so
  it returns Python's \<^verbatim>\<open>None\<close>, written \<open>ReturnNone\<close>.
\<close>

datatype 'a pyreturn = ReturnNone | Return 'a

fun get_config_requirements :: "modifier list \<Rightarrow> config_option list pyreturn result" where
  "get_config_requirements [] = Inr ReturnNone"
| "get_config_requirements (m # ms) =
     (case get_config_options m of
        Inl e \<Rightarrow> Inl e
      | Inr opts \<Rightarrow> get_config_requirements ms)"

text \<open>
  The aggregation the docstring of \<^verbatim>\<open>get_config_requirements\<close> promises, in the
  specification's words: every modifier's declared options, in one namespace.
\<close>

fun aggregated_options :: "modifier list \<Rightarrow> config_option list result" where
  "aggregated_options [] = Inr []"
| "aggregated_options (m # ms) =
     (case get_config_options m of
        Inl e \<Rightarrow> Inl e
      | Inr opts \<Rightarrow>
          (case aggregated_options ms of Inl e \<Rightarrow> Inl e | Inr rest \<Rightarrow> Inr (opts @ rest)))"

text \<open>
  \<^verbatim>\<open>ContextFactory.__call__\<close>: the loop \<^verbatim>\<open>for modifier in self: modifier(context = context)\<close>
  is \<open>apply_modifiers\<close>; an exception of a modifier ends the loop and the call.
\<close>

fun apply_modifiers :: "modifier list \<Rightarrow> ref \<Rightarrow> heap \<Rightarrow> unit result \<times> heap" where
  "apply_modifiers [] c h = (Inr (), h)"
| "apply_modifiers (m # ms) c h =
     (case modifier_call m c h of
        (Inl e, h1) \<Rightarrow> (Inl e, h1)
      | (Inr u, h1) \<Rightarrow> apply_modifiers ms c h1)"

definition factory_call :: "modifier list \<Rightarrow> heap \<Rightarrow> ref result \<times> heap" where
  "factory_call self h =
     (case Context_init (Some x86NativeTable) h of
        (c, h0) \<Rightarrow>
          (case apply_modifiers self c h0 of
             (Inl e, h1) \<Rightarrow> (Inl e, h1)
           | (Inr u, h1) \<Rightarrow> (Inr c, h1)))"


section \<open>Example data\<close>

text \<open>
  A store in which nothing is allocated yet; \<open>blank_context\<close> and \<open>blank_template\<close>, a
  template without parameters, fill the references that are not in use.
\<close>

definition blank_template :: template where
  "blank_template = \<lparr>vol = Map.empty, schema = Map.empty\<rparr>"

definition blank_context :: context_state where
  "blank_context =
     \<lparr>ctx_symbol_space = SymbolSpace x86NativeTable, ctx_memory = Memory, ctx_config = PyNone\<rparr>"

definition empty_heap :: heap where
  "empty_heap =
     \<lparr>next_ref = 0,
      contexts = (\<lambda>r. blank_context),
      templates = (\<lambda>r. blank_template)\<rparr>"

text \<open>
  A store with one context, reference 0, and one template, reference 1: the symbol
  space of the context registers the structure \<^verbatim>\<open>Test\<close> with that template, which has
  not been specialised and declares one parameter, \<^verbatim>\<open>count\<close>, a non-negative integer;
  the registry of the context holds the raw layer \<^verbatim>\<open>physical\<close>.
\<close>

fun nonnegative_int :: "pyvalue \<Rightarrow> bool" where
  "nonnegative_int (PyInt n) = (0 \<le> n)"
| "nonnegative_int v = False"

definition example_heap :: heap where
  "example_heap =
     \<lparr>next_ref = 2,
      contexts = (\<lambda>r. blank_context)(0 :=
        \<lparr>ctx_symbol_space = \<lparr>natives = x86NativeTable, structures = [''Test'' \<mapsto> 1]\<rparr>,
         ctx_memory = \<lparr>layers = [''physical'' \<mapsto> \<lparr>name = ''physical'', dependencies = []\<rparr>]\<rparr>,
         ctx_config = ConfigGroup ''volatility'' []\<rparr>),
      templates = (\<lambda>r. blank_template)(1 :=
        \<lparr>vol = Map.empty, schema = [''count'' \<mapsto> nonnegative_int]\<rparr>)\<rparr>"

text \<open>
  Two modifiers: the first registers the raw layer \<^verbatim>\<open>physical\<close>, the second the
  translating layer \<^verbatim>\<open>intel\<close>, which depends on \<^verbatim>\<open>physical\<close>.
\<close>

definition physical_modifier :: modifier where
  "physical_modifier =
     \<lparr>get_config_options = Inr [(''memory_file'', ''str'', ''raw capture'')],
      modifier_call = (\<lambda>c. add_translation_layer c \<lparr>name = ''physical'', dependencies = []\<rparr>)\<rparr>"

definition intel_modifier :: modifier where
  "intel_modifier =
     \<lparr>get_config_options = Inr [(''page_map_offset'', ''int'', ''directory table base'')],
      modifier_call =
        (\<lambda>c. add_translation_layer c \<lparr>name = ''intel'', dependencies = [''physical'']\<rparr>)\<rparr>"

text \<open>A type check that accepts references to objects and raises on every other value.\<close>

definition only_references :: "pyvalue \<Rightarrow> unit result" where
  "only_references v =
     (case v of PyRef r \<Rightarrow> Inr () | _ \<Rightarrow> Inl (TypeError ''ContextFactory expected a modifier''))"


section \<open>Properties of Context\<close>

text \<open>
  Claim C7. Assigning a value that is not a configuration store to \<^verbatim>\<open>context.config\<close>
  fails with \<open>ConfigTypeMismatch\<close> (the setter's \<^verbatim>\<open>TypeError\<close>); the store is left as it
  was, and \<^verbatim>\<open>context.config\<close> still reads the configuration held before.
\<close>

theorem set_config_type_mismatch:
  "\<not> isinstance_ConfigGroup v \<Longrightarrow>
     set_config self v h = (Inl ConfigTypeMismatch, h) \<and>
     config self (snd (set_config self v h)) = config self h"
  by (simp add: set_config_def)

theorem set_config_type_mismatch_witness:
  "set_config 0 (PyStr ''volatility'') example_heap = (Inl ConfigTypeMismatch, example_heap) \<and>
   config 0 (snd (set_config 0 (PyStr ''volatility'') example_heap)) = ConfigGroup ''volatility'' []"
  using set_config_type_mismatch [of "PyStr ''volatility''" 0 example_heap]
  by (simp add: config_def example_heap_def)

text \<open>
  Claim C5. Adding a layer whose name is already registered fails with
  \<open>LayerAlreadyExists\<close>; adding a layer of a new name that declares a dependency which is
  not registered fails with \<open>LayerDependencyUnmet\<close>; whenever
  \<^verbatim>\<open>add_translation_layer\<close> fails the store is unchanged, so a layer registered under
  that name before is still the one found there.
\<close>

theorem add_translation_layer_atomic_failure:
  "(layers (memory self h) (name l) \<noteq> None \<longrightarrow>
      add_translation_layer self l h = (Inl LayerAlreadyExists, h)) \<and>
   (layers (memory self h) (name l) = None \<and>
    (\<exists>d \<in> set (dependencies l). layers (memory self h) d = None) \<longrightarrow>
      add_translation_layer self l h = (Inl LayerDependencyUnmet, h)) \<and>
   (fst (add_translation_layer self l h) \<noteq> Inr () \<longrightarrow>
      snd (add_translation_layer self l h) = h \<and>
      layers (memory self (snd (add_translation_layer self l h))) (name l)
        = layers (memory self h) (name l))"
  by (auto simp: add_translation_layer_def add_layer_def memory_def list_ex_iff)

theorem add_translation_layer_atomic_failure_witness:
  "add_translation_layer 0 \<lparr>name = ''physical'', dependencies = []\<rparr> example_heap
     = (Inl LayerAlreadyExists, example_heap) \<and>
   add_translation_layer 0 \<lparr>name = ''intel'', dependencies = [''physical'', ''swap'']\<rparr> example_heap
     = (Inl LayerDependencyUnmet, example_heap) \<and>
   layers (memory 0 (snd (add_translation_layer 0 \<lparr>name = ''physical'', dependencies = []\<rparr>
       example_heap))) ''physical''
     = Some \<lparr>name = ''physical'', dependencies = []\<rparr>"
  using add_translation_layer_atomic_failure
          [of 0 example_heap "\<lparr>name = ''physical'', dependencies = []\<rparr>"]
        add_translation_layer_atomic_failure
          [of 0 example_heap "\<lparr>name = ''intel'', dependencies = [''physical'', ''swap'']\<rparr>"]
  by (simp add: memory_def example_heap_def)

text \<open>
  Claim C6. For a symbol name that the symbol space does not define,
  \<^verbatim>\<open>Context.object\<close> fails with the \<open>SymbolNotFound\<close> of \<^verbatim>\<open>get_structure\<close>: no object
  is constructed and the store is unchanged.
\<close>

theorem object_symbol_not_found:
  "structures (symbol_space self h) symbol = None \<Longrightarrow>
     object self symbol layer_name offset arguments h = (Inl SymbolNotFound, h)"
  by (simp add: object_def get_structure_def symbol_space_def)

theorem object_symbol_not_found_witness:
  "object 0 ''_EPROCESS'' ''physical'' 0 Map.empty example_heap
     = (Inl SymbolNotFound, example_heap)"
  using object_symbol_not_found [of 0 example_heap "''_EPROCESS''" "''physical''" 0 Map.empty]
  by (simp add: symbol_space_def example_heap_def)

text \<open>
  What the three statements of the method do, for any implementation \<open>upd\<close> of
  \<^verbatim>\<open>update_vol\<close>: once the symbol is found, \<open>upd\<close> is applied to the looked-up template
  and the given parameters; its exception ends the call, and otherwise the looked-up
  template is called with the context and the location, on the store \<open>upd\<close> left.
\<close>

lemma object_is_object_with_update_vol:
  "object self symbol layer_name offset arguments h
     = object_with update_vol self symbol layer_name offset arguments h"
  by (simp add: object_def object_with_def)




text \<open>
  Claim C10. Every successful call of \<^verbatim>\<open>Context.object\<close> returns an object constructed
  with the context the call was made on and with an \<open>ObjectInformation\<close> whose layer name
  and offset are the arguments as passed, and whose parent and native layer name are
  not set.
\<close>

theorem object_binds_as_passed:
  "object self symbol layer_name offset arguments h = (Inr obj, h') \<Longrightarrow>
     obj_context obj = self \<and>
     obj_info obj = ObjectInformation layer_name offset None None \<and>
     info_layer_name (obj_info obj) = layer_name \<and>
     info_offset (obj_info obj) = offset \<and>
     info_parent (obj_info obj) = None \<and>
     info_native_layer_name (obj_info obj) = None"
  by (auto simp: object_def template_call_def ObjectInformation_def
           split: sum.splits prod.splits)

theorem object_binds_as_passed_witness:
  "\<exists>obj h'. object 0 ''Test'' ''physical'' 4096 Map.empty example_heap = (Inr obj, h') \<and>
     obj_context obj = 0 \<and>
     info_layer_name (obj_info obj) = ''physical'' \<and>
     info_offset (obj_info obj) = 4096 \<and>
     info_parent (obj_info obj) = None \<and>
     info_native_layer_name (obj_info obj) = None"
proof -
  obtain r h' where run: "object 0 ''Test'' ''physical'' 4096 Map.empty example_heap = (r, h')"
    by (cases "object 0 ''Test'' ''physical'' 4096 Map.empty example_heap")
  then have "\<exists>obj. r = Inr obj"
    by (auto simp: object_def get_structure_def update_vol_def valid_parameters_def
          template_call_def example_heap_def)
  then obtain obj where "r = Inr obj" ..
  with run have ok: "object 0 ''Test'' ''physical'' 4096 Map.empty example_heap = (Inr obj, h')"
    by simp
  from object_binds_as_passed [OF ok] ok show ?thesis by blast
qed


text \<open>
  The method drops what \<^verbatim>\<open>update_vol\<close> returns. With any implementation \<open>upd\<close> that
  leaves the store as it is, a call leaves the store as it is, and the object it
  returns is bound from the registered template, with the parameters that template
  has in the store.
\<close>

lemma object_with_keeps_store:
  assumes "\<And>t a h0. snd (upd t a h0) = h0"
  shows "snd (object_with upd self symbol layer_name offset arguments h) = h"
proof (cases "get_structure (ctx_symbol_space (contexts h self)) symbol")
  case (Inl e)
  then show ?thesis by (simp add: object_with_def)
next
  case (Inr t)
  obtain r h1 where upd: "upd t arguments h = (r, h1)"
    by (cases "upd t arguments h")
  with assms [of t arguments h] have "h1 = h" by simp
  with Inr upd show ?thesis
    by (cases r) (simp_all add: object_with_def template_call_def)
qed

lemma object_with_binds_registered_template:
  assumes "\<And>t a h0. snd (upd t a h0) = h0"
    and "object_with upd self symbol layer_name offset arguments h = (Inr obj, h')"
  shows "structures (ctx_symbol_space (contexts h self)) symbol = Some (obj_template obj) \<and>
         obj_vol obj = vol (templates h (obj_template obj))"
proof -
  from assms(2) obtain t where
    found: "get_structure (ctx_symbol_space (contexts h self)) symbol = Inr t"
    by (auto simp: object_with_def split: sum.splits)
  obtain r h1 where upd: "upd t arguments h = (r, h1)"
    by (cases "upd t arguments h")
  with assms(1) [of t arguments h] have same: "h1 = h"
    by simp
  from assms(2) found upd
  have "template_call t self (ObjectInformation layer_name offset None None) h1 = (Inr obj, h')"
    by (auto simp: object_with_def split: sum.splits)
  with same found show ?thesis
    by (auto simp: template_call_def get_structure_def split: option.splits)
qed

lemma update_vol_keeps_store: "snd (update_vol t arguments h) = h"
  by (simp add: update_vol_def)

text \<open>
  Claim C1. For every symbol name and every two parameter mappings \<open>p1\<close> and \<open>p2\<close>, a
  call of \<^verbatim>\<open>Context.object\<close> with \<open>p1\<close> followed by one with \<open>p2\<close> leaves the store as it
  was: the template registered in the symbol space is not mutated, and neither call
  has an effect on the layer registry or on the symbol space. The result of the second
  call is the result the same call has on the original store, so it does not reflect
  \<open>p1\<close>. For a symbol the symbol space defines, each call specialises an instance of
  its own: for valid parameters \<^verbatim>\<open>update_vol\<close> returns a new template value with the
  registered parameters overridden by those of that call.
\<close>

theorem object_twice_leaves_registered_template:
  "snd (object self symbol layer_name offset p1 h) = h \<and>
   snd (snd (object_twice self symbol layer_name offset p1 p2 h)) = h \<and>
   fst (object_twice self symbol layer_name offset p1 p2 h)
     = fst (object self symbol layer_name offset p1 h) \<and>
   fst (snd (object_twice self symbol layer_name offset p1 p2 h))
     = fst (object self symbol layer_name offset p2 h) \<and>
   (structures (symbol_space self h) symbol = Some t \<and>
    valid_parameters (templates h t) p1 \<and> valid_parameters (templates h t) p2 \<longrightarrow>
      update_vol t p1 h = (Inr ((templates h t)\<lparr>vol := vol (templates h t) ++ p1\<rparr>), h) \<and>
      update_vol t p2 h = (Inr ((templates h t)\<lparr>vol := vol (templates h t) ++ p2\<rparr>), h))"
proof -
  have keep: "snd (object self symbol layer_name offset p h0) = h0" for p h0
    using object_with_keeps_store [of update_vol self symbol layer_name offset p h0]
    by (simp add: object_is_object_with_update_vol update_vol_keeps_store)
  have first: "object self symbol layer_name offset p1 h
      = (fst (object self symbol layer_name offset p1 h), h)"
    using keep [of p1 h] by (simp add: prod_eq_iff)
  have second: "object self symbol layer_name offset p2 h
      = (fst (object self symbol layer_name offset p2 h), h)"
    using keep [of p2 h] by (simp add: prod_eq_iff)
  have twice: "object_twice self symbol layer_name offset p1 p2 h
      = (fst (object self symbol layer_name offset p1 h),
         fst (object self symbol layer_name offset p2 h), h)"
    unfolding object_twice_def by (subst first, simp, subst second, simp)
  have instances: "update_vol t p h
      = (Inr ((templates h t)\<lparr>vol := vol (templates h t) ++ p\<rparr>), h)"
    if "valid_parameters (templates h t) p" for p
    using that by (simp add: update_vol_def)
  from keep [of p1 h] twice instances show ?thesis by simp
qed

text \<open>
  On the example store, with the counts 3 and 7: both calls succeed, the store is the
  example store afterwards and the registered template \<^verbatim>\<open>Test\<close> still has no \<^verbatim>\<open>count\<close>;
  the specialised instances are the values \<^verbatim>\<open>update_vol\<close> returns.
\<close>

theorem object_twice_leaves_registered_template_witness:
  "snd (snd (object_twice 0 ''Test'' ''physical'' 0 [''count'' \<mapsto> PyInt 3] [''count'' \<mapsto> PyInt 7]
          example_heap)) = example_heap \<and>
   fst (snd (object_twice 0 ''Test'' ''physical'' 0 [''count'' \<mapsto> PyInt 3] [''count'' \<mapsto> PyInt 7]
          example_heap))
     = fst (object 0 ''Test'' ''physical'' 0 [''count'' \<mapsto> PyInt 7] example_heap) \<and>
   fst (object 0 ''Test'' ''physical'' 0 [''count'' \<mapsto> PyInt 7] example_heap)
     = Inr \<lparr>obj_context = 0,
            obj_info = ObjectInformation ''physical'' 0 None None,
            obj_template = 1,
            obj_vol = vol (templates example_heap 1)\<rparr> \<and>
   vol (templates example_heap 1) ''count'' = None \<and>
   update_vol 1 [''count'' \<mapsto> PyInt 3] example_heap
     = (Inr \<lparr>vol = [''count'' \<mapsto> PyInt 3], schema = [''count'' \<mapsto> nonnegative_int]\<rparr>,
        example_heap) \<and>
   update_vol 1 [''count'' \<mapsto> PyInt 7] example_heap
     = (Inr \<lparr>vol = [''count'' \<mapsto> PyInt 7], schema = [''count'' \<mapsto> nonnegative_int]\<rparr>,
        example_heap)"
proof -
  have found: "structures (symbol_space 0 example_heap) ''Test'' = Some 1"
    by (simp add: symbol_space_def example_heap_def)
  have valid: "valid_parameters (templates example_heap 1) [''count'' \<mapsto> PyInt 3]"
      "valid_parameters (templates example_heap 1) [''count'' \<mapsto> PyInt 7]"
    by (simp_all add: valid_parameters_def example_heap_def)
  have alone: "fst (object 0 ''Test'' ''physical'' 0 [''count'' \<mapsto> PyInt 7] example_heap)
     = Inr \<lparr>obj_context = 0,
            obj_info = ObjectInformation ''physical'' 0 None None,
            obj_template = 1,
            obj_vol = vol (templates example_heap 1)\<rparr>"
    by (simp add: object_def get_structure_def update_vol_def valid_parameters_def
          template_call_def example_heap_def)
  from object_twice_leaves_registered_template
         [of 0 "''Test''" "''physical''" 0 "[''count'' \<mapsto> PyInt 3]" example_heap
             "[''count'' \<mapsto> PyInt 7]" 1]
       found valid alone
  show ?thesis by (simp add: example_heap_def)
qed

section \<open>Properties of ContextFactory\<close>

text \<open>
  Claim C8. \<^verbatim>\<open>factory[key] = v\<close> runs the type check on \<open>v\<close> before it stores anything:
  if the check raises, that exception is the result and the factory's list is
  unchanged (also when the key is out of range); if the check returns, the assignment
  is the one of \<^verbatim>\<open>list\<close>. \<^verbatim>\<open>append\<close> stores a value without any check, also a value
  the check would refuse.
\<close>

theorem setitem_type_checks_value:
  "(type_check v = Inl e \<longrightarrow> setitem type_check self key v = (Inl e, self)) \<and>
   (type_check v = Inr () \<longrightarrow> setitem type_check self key v = list_setitem self key v) \<and>
   (type_check v = Inr () \<and> 0 \<le> key \<and> key < int (length self) \<longrightarrow>
      setitem type_check self key v = (Inr (), self[nat key := v])) \<and>
   append_item self v = (Inr (), self @ [v])"
  by (simp add: setitem_def list_setitem_def append_item_def list_append_def)

theorem setitem_type_checks_value_witness:
  "setitem only_references [PyRef 1, PyRef 2] 5 (PyInt 7)
     = (Inl (TypeError ''ContextFactory expected a modifier''), [PyRef 1, PyRef 2]) \<and>
   setitem only_references [PyRef 1, PyRef 2] 1 (PyRef 3)
     = (Inr (), [PyRef 1, PyRef 3]) \<and>
   append_item [PyRef 1, PyRef 2] (PyInt 7)
     = (Inr (), [PyRef 1, PyRef 2, PyInt 7])"
  using setitem_type_checks_value
          [of only_references "PyInt 7" "TypeError ''ContextFactory expected a modifier''"
              "[PyRef 1, PyRef 2]" 5]
        setitem_type_checks_value
          [of only_references "PyRef 3" "TypeError ''ContextFactory expected a modifier''"
              "[PyRef 1, PyRef 2]" 1]
  by (simp add: only_references_def list_setitem_def)

text \<open>
  The loop over the modifiers succeeds exactly when there is a chain of stores, one
  per step, in which the \<open>i\<close>-th modifier takes the \<open>i\<close>-th store to the next one
  without raising.
\<close>

lemma apply_modifiers_chain:
  "apply_modifiers ms c h = (Inr (), h') \<longleftrightarrow>
     (\<exists>hs. length hs = Suc (length ms) \<and> hs ! 0 = h \<and>
        (\<forall>i<length ms. modifier_call (ms ! i) c (hs ! i) = (Inr (), hs ! Suc i)) \<and>
        hs ! length ms = h')"
proof (induction ms arbitrary: h)
  case Nil
  show ?case
  proof
    assume "apply_modifiers [] c h = (Inr (), h')"
    then have "h' = h" by simp
    then show "\<exists>hs. length hs = Suc (length ([] :: modifier list)) \<and> hs ! 0 = h \<and>
        (\<forall>i<length ([] :: modifier list).
            modifier_call ([] ! i) c (hs ! i) = (Inr (), hs ! Suc i)) \<and>
        hs ! length ([] :: modifier list) = h'"
      by (intro exI [of _ "[h]"]) simp
  next
    assume "\<exists>hs. length hs = Suc (length ([] :: modifier list)) \<and> hs ! 0 = h \<and>
        (\<forall>i<length ([] :: modifier list).
            modifier_call ([] ! i) c (hs ! i) = (Inr (), hs ! Suc i)) \<and>
        hs ! length ([] :: modifier list) = h'"
    then show "apply_modifiers [] c h = (Inr (), h')" by auto
  qed
next
  case (Cons m ms)
  show ?case
  proof
    assume run: "apply_modifiers (m # ms) c h = (Inr (), h')"
    then obtain h1 where first: "modifier_call m c h = (Inr (), h1)"
      and rest: "apply_modifiers ms c h1 = (Inr (), h')"
      by (auto split: prod.splits sum.splits)
    from rest Cons.IH [of h1] obtain hs where hs:
      "length hs = Suc (length ms)" "hs ! 0 = h1"
      "\<forall>i<length ms. modifier_call (ms ! i) c (hs ! i) = (Inr (), hs ! Suc i)"
      "hs ! length ms = h'"
      by blast
    have "\<forall>i<length (m # ms).
        modifier_call ((m # ms) ! i) c ((h # hs) ! i) = (Inr (), (h # hs) ! Suc i)"
    proof (intro allI impI)
      fix i assume "i < length (m # ms)"
      then show "modifier_call ((m # ms) ! i) c ((h # hs) ! i) = (Inr (), (h # hs) ! Suc i)"
        using first hs by (cases i) auto
    qed
    with hs show "\<exists>hs. length hs = Suc (length (m # ms)) \<and> hs ! 0 = h \<and>
        (\<forall>i<length (m # ms). modifier_call ((m # ms) ! i) c (hs ! i) = (Inr (), hs ! Suc i)) \<and>
        hs ! length (m # ms) = h'"
      by (intro exI [of _ "h # hs"]) simp
  next
    assume "\<exists>hs. length hs = Suc (length (m # ms)) \<and> hs ! 0 = h \<and>
        (\<forall>i<length (m # ms). modifier_call ((m # ms) ! i) c (hs ! i) = (Inr (), hs ! Suc i)) \<and>
        hs ! length (m # ms) = h'"
    then obtain hs where hs:
      "length hs = Suc (length (m # ms))" "hs ! 0 = h"
      "\<forall>i<length (m # ms). modifier_call ((m # ms) ! i) c (hs ! i) = (Inr (), hs ! Suc i)"
      "hs ! length (m # ms) = h'"
      by blast
    then obtain h0 tl where split: "hs = h0 # tl" by (cases hs) auto
    with hs have h0: "h0 = h" by simp
    have "0 < length (m # ms)" by simp
    with hs(3) have "modifier_call ((m # ms) ! 0) c (hs ! 0) = (Inr (), hs ! Suc 0)" by blast
    with split h0 have first: "modifier_call m c h = (Inr (), tl ! 0)" by simp
    have "\<forall>i<length ms. modifier_call (ms ! i) c (tl ! i) = (Inr (), tl ! Suc i)"
    proof (intro allI impI)
      fix i assume "i < length ms"
      then have "Suc i < length (m # ms)" by simp
      with hs(3)
      have "modifier_call ((m # ms) ! Suc i) c (hs ! Suc i) = (Inr (), hs ! Suc (Suc i))"
        by blast
      with split show "modifier_call (ms ! i) c (tl ! i) = (Inr (), tl ! Suc i)" by simp
    qed
    moreover from hs split have "length tl = Suc (length ms)" "tl ! length ms = h'" by auto
    ultimately have "apply_modifiers ms c (tl ! 0) = (Inr (), h')"
      using Cons.IH [of "tl ! 0"] by blast
    with first show "apply_modifiers (m # ms) c h = (Inr (), h')" by simp
  qed
qed


text \<open>
  An exception of a modifier ends the loop: the modifiers before it have been called in
  order, the ones after it are not called, and the store is the one the raising
  modifier left.
\<close>

lemma apply_modifiers_raises:
  "apply_modifiers ms1 c h = (Inr (), h1) \<Longrightarrow> modifier_call m c h1 = (Inl e, h2) \<Longrightarrow>
     apply_modifiers (ms1 @ m # ms2) c h = (Inl e, h2)"
proof (induction ms1 arbitrary: h)
  case Nil
  then show ?case by simp
next
  case (Cons m1 ms1)
  from Cons.prems(1) obtain h0 where first: "modifier_call m1 c h = (Inr (), h0)"
    and rest: "apply_modifiers ms1 c h0 = (Inr (), h1)"
    by (auto split: prod.splits sum.splits)
  from Cons.IH [OF rest Cons.prems(2)] first show ?case by simp
qed

text \<open>
  Claim C4. Calling a factory with the modifiers \<open>ms\<close> returns a context \<open>c\<close> exactly
  when \<open>c\<close> is a fresh context (a reference that was not allocated before the call),
  constructed with the default native table, an empty layer registry and the
  configuration store \<^verbatim>\<open>volatility\<close>, and every modifier has been called once on \<open>c\<close>
  in list order without raising: the first on the store the constructor left, each
  later one on the store its predecessor left, and the last one leaves the final store.
\<close>

theorem factory_call_applies_modifiers_in_order:
  "factory_call ms h = (Inr c, h') \<longleftrightarrow>
     c = next_ref h \<and> \<not> is_allocated h c \<and>
     (\<exists>hs. length hs = Suc (length ms) \<and>
        hs ! 0 = snd (Context_init (Some x86NativeTable) h) \<and>
        contexts (hs ! 0) c =
          \<lparr>ctx_symbol_space = SymbolSpace x86NativeTable, ctx_memory = Memory,
           ctx_config = ConfigGroup ''volatility'' []\<rparr> \<and>
        (\<forall>i<length ms. modifier_call (ms ! i) c (hs ! i) = (Inr (), hs ! Suc i)) \<and>
        hs ! length ms = h')"
proof -
  let ?h0 = "snd (Context_init (Some x86NativeTable) h)"
  have seeded: "contexts ?h0 (next_ref h) =
      \<lparr>ctx_symbol_space = SymbolSpace x86NativeTable, ctx_memory = Memory,
       ctx_config = ConfigGroup ''volatility'' []\<rparr>"
    by (simp add: Context_init_def Let_def)
  have "factory_call ms h = (Inr c, h') \<longleftrightarrow>
      c = next_ref h \<and> apply_modifiers ms (next_ref h) ?h0 = (Inr (), h')"
    by (auto simp: factory_call_def Context_init_def Let_def split: prod.splits sum.splits)
  also have "\<dots> \<longleftrightarrow> c = next_ref h \<and>
     (\<exists>hs. length hs = Suc (length ms) \<and> hs ! 0 = ?h0 \<and>
        (\<forall>i<length ms. modifier_call (ms ! i) c (hs ! i) = (Inr (), hs ! Suc i)) \<and>
        hs ! length ms = h')"
    using apply_modifiers_chain [of ms "next_ref h" ?h0 h'] by auto
  also have "\<dots> \<longleftrightarrow> c = next_ref h \<and> \<not> is_allocated h c \<and>
     (\<exists>hs. length hs = Suc (length ms) \<and> hs ! 0 = ?h0 \<and>
        contexts (hs ! 0) c =
          \<lparr>ctx_symbol_space = SymbolSpace x86NativeTable, ctx_memory = Memory,
           ctx_config = ConfigGroup ''volatility'' []\<rparr> \<and>
        (\<forall>i<length ms. modifier_call (ms ! i) c (hs ! i) = (Inr (), hs ! Suc i)) \<and>
        hs ! length ms = h')"
    using seeded by (auto simp: is_allocated_def)
  finally show ?thesis .
qed

text \<open>
  The factory of the two example modifiers returns the fresh context 0 after calling
  \<open>physical_modifier\<close> and then \<open>intel_modifier\<close>; in the other order the call fails,
  because \<^verbatim>\<open>intel\<close> depends on the layer that \<open>physical_modifier\<close> registers.
\<close>

theorem factory_call_applies_modifiers_in_order_witness:
  "fst (factory_call [physical_modifier, intel_modifier] empty_heap) = Inr 0 \<and>
   (\<exists>hs. length hs = 3 \<and>
      hs ! 0 = snd (Context_init (Some x86NativeTable) empty_heap) \<and>
      modifier_call physical_modifier 0 (hs ! 0) = (Inr (), hs ! 1) \<and>
      modifier_call intel_modifier 0 (hs ! 1) = (Inr (), hs ! 2) \<and>
      hs ! 2 = snd (factory_call [physical_modifier, intel_modifier] empty_heap)) \<and>
   fst (factory_call [intel_modifier, physical_modifier] empty_heap) = Inl LayerDependencyUnmet"
proof -
  let ?ms = "[physical_modifier, intel_modifier]"
  have ok: "fst (factory_call ?ms empty_heap) = Inr 0"
    by (simp add: factory_call_def Context_init_def Let_def physical_modifier_def
          intel_modifier_def add_translation_layer_def add_layer_def Memory_def empty_heap_def)
  then have "factory_call ?ms empty_heap = (Inr 0, snd (factory_call ?ms empty_heap))"
    by (simp add: prod_eq_iff)
  with factory_call_applies_modifiers_in_order
         [of ?ms empty_heap 0 "snd (factory_call ?ms empty_heap)"]
  obtain hs where hs: "length hs = Suc (length ?ms)"
      "hs ! 0 = snd (Context_init (Some x86NativeTable) empty_heap)"
      "\<forall>i<length ?ms. modifier_call (?ms ! i) 0 (hs ! i) = (Inr (), hs ! Suc i)"
      "hs ! length ?ms = snd (factory_call ?ms empty_heap)"
    by blast
  from hs(3) have steps: "modifier_call physical_modifier 0 (hs ! 0) = (Inr (), hs ! 1)"
      "modifier_call intel_modifier 0 (hs ! 1) = (Inr (), hs ! 2)"
    by (simp_all add: All_less_Suc numeral_2_eq_2)
  from hs have len: "length hs = 3" and last: "hs ! 2 = snd (factory_call ?ms empty_heap)"
    by (simp_all add: numeral_2_eq_2)
  have reversed: "fst (factory_call [intel_modifier, physical_modifier] empty_heap)
      = Inl LayerDependencyUnmet"
    by (simp add: factory_call_def Context_init_def Let_def physical_modifier_def
          intel_modifier_def add_translation_layer_def add_layer_def Memory_def empty_heap_def)
  from ok len hs(2) steps last reversed show ?thesis by blast
qed


text \<open>
  Modifiers that leave the native table of the context they are given alone hand it on
  through the whole loop, whether the loop ends normally or with an exception.
\<close>

lemma apply_modifiers_keeps_natives:
  "\<forall>m\<in>set ms. \<forall>h1. natives (symbol_space c (snd (modifier_call m c h1)))
        = natives (symbol_space c h1) \<Longrightarrow>
   natives (symbol_space c (snd (apply_modifiers ms c h))) = natives (symbol_space c h)"
proof (induction ms arbitrary: h)
  case Nil
  then show ?case by simp
next
  case (Cons m ms)
  from Cons.prems have step: "natives (symbol_space c (snd (modifier_call m c h)))
      = natives (symbol_space c h)"
    by simp
  from Cons.prems have rest: "\<forall>m\<in>set ms. \<forall>h1.
      natives (symbol_space c (snd (modifier_call m c h1))) = natives (symbol_space c h1)"
    by simp
  show ?case
  proof (cases "modifier_call m c h")
    case (Pair r h1)
    show ?thesis
    proof (cases r)
      case (Inl e)
      with Pair step show ?thesis by simp
    next
      case (Inr u)
      with Pair step Cons.IH [OF rest, of h1] show ?thesis by simp
    qed
  qed
qed

text \<open>
  Claim C9. A context constructed without the \<^verbatim>\<open>natives\<close> argument has a symbol space
  seeded with the x86 native table. A factory, whatever its modifiers are, runs them on
  a context whose symbol space was seeded with the x86 native table; and the context
  it returns still has that table when no modifier replaces the native table of the
  context it is given.
\<close>

theorem context_seeded_with_x86_natives:
  "symbol_space (fst (Context_init None h)) (snd (Context_init None h))
     = SymbolSpace x86NativeTable \<and>
   (\<exists>h0. symbol_space (next_ref h) h0 = SymbolSpace x86NativeTable \<and>
      factory_call ms h =
        (case apply_modifiers ms (next_ref h) h0 of
           (Inl e, h1) \<Rightarrow> (Inl e, h1)
         | (Inr u, h1) \<Rightarrow> (Inr (next_ref h), h1))) \<and>
   ((\<forall>m\<in>set ms. \<forall>h1. natives (symbol_space c (snd (modifier_call m c h1)))
        = natives (symbol_space c h1)) \<longrightarrow>
    factory_call ms h = (Inr c, h') \<longrightarrow>
    natives (symbol_space c h') = x86NativeTable)"
proof (intro conjI impI)
  show "symbol_space (fst (Context_init None h)) (snd (Context_init None h))
     = SymbolSpace x86NativeTable"
    by (simp add: Context_init_def Let_def symbol_space_def)
next
  let ?h0 = "snd (Context_init (Some x86NativeTable) h)"
  have "symbol_space (next_ref h) ?h0 = SymbolSpace x86NativeTable"
    by (simp add: Context_init_def Let_def symbol_space_def)
  moreover have "factory_call ms h =
        (case apply_modifiers ms (next_ref h) ?h0 of
           (Inl e, h1) \<Rightarrow> (Inl e, h1)
         | (Inr u, h1) \<Rightarrow> (Inr (next_ref h), h1))"
    by (simp add: factory_call_def Context_init_def Let_def)
  ultimately show "\<exists>h0. symbol_space (next_ref h) h0 = SymbolSpace x86NativeTable \<and>
      factory_call ms h =
        (case apply_modifiers ms (next_ref h) h0 of
           (Inl e, h1) \<Rightarrow> (Inl e, h1)
         | (Inr u, h1) \<Rightarrow> (Inr (next_ref h), h1))"
    by blast
next
  let ?h0 = "snd (Context_init (Some x86NativeTable) h)"
  assume keep: "\<forall>m\<in>set ms. \<forall>h1. natives (symbol_space c (snd (modifier_call m c h1)))
        = natives (symbol_space c h1)"
    and run: "factory_call ms h = (Inr c, h')"
  from run have c: "c = next_ref h" and h': "h' = snd (apply_modifiers ms c ?h0)"
    by (auto simp: factory_call_def Context_init_def Let_def split: prod.splits sum.splits)
  have "natives (symbol_space c ?h0) = x86NativeTable"
    by (simp add: c Context_init_def Let_def symbol_space_def SymbolSpace_def)
  with apply_modifiers_keeps_natives [OF keep, of ?h0] h'
  show "natives (symbol_space c h') = x86NativeTable" by simp
qed

theorem context_seeded_with_x86_natives_witness:
  "symbol_space 0 (snd (Context_init None empty_heap)) = SymbolSpace x86NativeTable \<and>
   fst (factory_call [physical_modifier, intel_modifier] empty_heap) = Inr 0 \<and>
   natives (symbol_space 0 (snd (factory_call [physical_modifier, intel_modifier] empty_heap)))
     = x86NativeTable"
proof -
  let ?ms = "[physical_modifier, intel_modifier]"
  have keep: "\<forall>m\<in>set ?ms. \<forall>h1. natives (symbol_space 0 (snd (modifier_call m 0 h1)))
        = natives (symbol_space 0 h1)"
    by (simp add: physical_modifier_def intel_modifier_def add_translation_layer_def
          symbol_space_def split: prod.splits)
  have ok: "fst (factory_call ?ms empty_heap) = Inr 0"
    by (simp add: factory_call_def Context_init_def Let_def physical_modifier_def
          intel_modifier_def add_translation_layer_def add_layer_def Memory_def empty_heap_def)
  then have run: "factory_call ?ms empty_heap = (Inr 0, snd (factory_call ?ms empty_heap))"
    by (simp add: prod_eq_iff)
  have init: "fst (Context_init None empty_heap) = 0"
    by (simp add: Context_init_def Let_def empty_heap_def)
  from context_seeded_with_x86_natives
         [of empty_heap ?ms 0 "snd (factory_call ?ms empty_heap)"] keep run init ok
  show ?thesis by simp
qed

text \<open>
  Claim C2 does not hold of the code. \<^verbatim>\<open>get_config_requirements\<close> never returns a
  collection of options: for the factory of the two example modifiers it returns
  \<^verbatim>\<open>None\<close>, where the aggregation of their declared options is the list of
  \<^verbatim>\<open>memory_file\<close> and \<^verbatim>\<open>page_map_offset\<close>.
\<close>

theorem get_config_requirements_returns_None:
  "get_config_requirements ms \<noteq> Inr (Return opts) \<and>
   get_config_requirements [physical_modifier, intel_modifier] = Inr ReturnNone \<and>
   aggregated_options [physical_modifier, intel_modifier]
     = Inr [(''memory_file'', ''str'', ''raw capture''),
            (''page_map_offset'', ''int'', ''directory table base'')]"
proof -
  have "get_config_requirements ms \<noteq> Inr (Return opts)"
    by (induction ms) (auto split: sum.splits)
  moreover have "get_config_requirements [physical_modifier, intel_modifier] = Inr ReturnNone"
    by (simp add: physical_modifier_def intel_modifier_def)
  moreover have "aggregated_options [physical_modifier, intel_modifier]
     = Inr [(''memory_file'', ''str'', ''raw capture''),
            (''page_map_offset'', ''int'', ''directory table base'')]"
    by (simp add: physical_modifier_def intel_modifier_def)
  ultimately show ?thesis by blast
qed

end
